theory Spec2Isabelle
  imports Main "HOL-Library.Sublist"
begin

section \<open>Strings\<close>

text \<open>
  A JavaScript string is modelled as a \<^typ>\<open>string\<close>, one \<^typ>\<open>char\<close> per code unit, for
  the code units U+0000 to U+00FF. The one literal of the sources outside that range, the
  trash folder name of the 163 preset, is written as the bytes of its UTF-8 encoding; it is
  only ever compared and tested for emptiness.
\<close>

definition truthy :: "string option \<Rightarrow> bool" where
  \<comment> \<open>\<open>!!x\<close> for \<open>x: string | undefined\<close>: undefined and the empty string are falsy\<close>
  "truthy x = (case x of None \<Rightarrow> False | Some s \<Rightarrow> s \<noteq> [])"

definition nullish_or :: "'a option \<Rightarrow> 'a \<Rightarrow> 'a" where
  \<comment> \<open>\<open>x ?? d\<close>\<close>
  "nullish_or x d = (case x of None \<Rightarrow> d | Some v \<Rightarrow> v)"

section \<open>config.ts\<close>

datatype builtin_provider = Gmail | QQ | N163 | Outlook

datatype ProviderName = Preset builtin_provider | Custom

record preset =
  p_imap_server :: string
  p_imap_port :: int
  p_smtp_server :: string
  p_smtp_port :: int
  p_smtp_secure :: bool
  p_trash_folder :: string
  p_requiresImapId :: "bool option"

definition EMAIL_PROVIDERS :: "builtin_provider \<Rightarrow> preset" where
  "EMAIL_PROVIDERS p = (case p of
     Gmail \<Rightarrow> \<lparr> p_imap_server = ''imap.gmail.com'', p_imap_port = 993,
                p_smtp_server = ''smtp.gmail.com'', p_smtp_port = 587,
                p_smtp_secure = False, p_trash_folder = ''[Gmail]/Trash'',
                p_requiresImapId = None \<rparr>
   | QQ \<Rightarrow> \<lparr> p_imap_server = ''imap.qq.com'', p_imap_port = 993,
             p_smtp_server = ''smtp.qq.com'', p_smtp_port = 465,
             p_smtp_secure = True, p_trash_folder = ''Deleted Messages'',
             p_requiresImapId = None \<rparr>
   | N163 \<Rightarrow> \<lparr> p_imap_server = ''imap.163.com'', p_imap_port = 993,
               p_smtp_server = ''smtp.163.com'', p_smtp_port = 465,
               p_smtp_secure = True,
               p_trash_folder = [CHR 0xE5, CHR 0xB7, CHR 0xB2, CHR 0xE5, CHR 0x88, CHR 0xA0,
                                 CHR 0xE9, CHR 0x99, CHR 0xA4],
               p_requiresImapId = Some True \<rparr>
   | Outlook \<Rightarrow> \<lparr> p_imap_server = ''outlook.office365.com'', p_imap_port = 993,
                  p_smtp_server = ''smtp.office365.com'', p_smtp_port = 587,
                  p_smtp_secure = False, p_trash_folder = ''Deleted'',
                  p_requiresImapId = None \<rparr>)"

text \<open>
  \<open>Account\<close> is the object that \<open>AccountSchema\<close> describes. \<open>ResolvedAccount extends Account\<close>,
  so a resolved account can be handed to \<open>resolveAccount\<close> again; the object spread
  \<open>...account\<close> then copies its \<open>requiresImapId\<close> key too. The field \<open>requiresImapId\<close> of
  \<open>Account\<close> stands for that key: it is \<open>None\<close> on every account that the schema parsed.
\<close>

record Account =
  account_id :: string
  email :: string
  password :: string
  provider :: ProviderName
  imap_server :: "string option"
  imap_port :: "int option"
  smtp_server :: "string option"
  smtp_port :: "int option"
  smtp_secure :: "bool option"
  trash_folder :: "string option"
  requiresImapId :: "bool option"

record ResolvedAccount =
  r_account_id :: string
  r_email :: string
  r_password :: string
  r_provider :: ProviderName
  r_imap_server :: string
  r_imap_port :: int
  r_smtp_server :: string
  r_smtp_port :: int
  r_smtp_secure :: bool
  r_trash_folder :: string
  r_requiresImapId :: "bool option"

datatype error = Error string

definition resolveAccount :: "Account \<Rightarrow> error + ResolvedAccount" where
  "resolveAccount account = (case provider account of
     Custom \<Rightarrow>
       (if \<not> truthy (imap_server account) \<or> \<not> truthy (smtp_server account)
        then Inl (Error (''Account \"'' @ account_id account @
                         ''\" uses custom provider but missing server configuration''))
        else Inr \<lparr> r_account_id = account_id account, r_email = email account,
                   r_password = password account, r_provider = provider account,
                   r_imap_server = the (imap_server account),
                   r_imap_port = nullish_or (imap_port account) 993,
                   r_smtp_server = the (smtp_server account),
                   r_smtp_port = nullish_or (smtp_port account) 465,
                   r_smtp_secure = nullish_or (smtp_secure account) True,
                   r_trash_folder = nullish_or (trash_folder account) ''Trash'',
                   r_requiresImapId = requiresImapId account \<rparr>)
   | Preset p \<Rightarrow>
       (let preset = EMAIL_PROVIDERS p in
        Inr \<lparr> r_account_id = account_id account, r_email = email account,
              r_password = password account, r_provider = provider account,
              r_imap_server = nullish_or (imap_server account) (p_imap_server preset),
              r_imap_port = nullish_or (imap_port account) (p_imap_port preset),
              r_smtp_server = nullish_or (smtp_server account) (p_smtp_server preset),
              r_smtp_port = nullish_or (smtp_port account) (p_smtp_port preset),
              r_smtp_secure = nullish_or (smtp_secure account) (p_smtp_secure preset),
              r_trash_folder = nullish_or (trash_folder account) (p_trash_folder preset),
              r_requiresImapId =
                (case p_requiresImapId preset of Some b \<Rightarrow> Some b | None \<Rightarrow> Some False) \<rparr>))"

definition as_Account :: "ResolvedAccount \<Rightarrow> Account" where
  \<comment> \<open>a \<open>ResolvedAccount\<close> read at its supertype \<open>Account\<close>\<close>
  "as_Account r = \<lparr> account_id = r_account_id r, email = r_email r, password = r_password r,
     provider = r_provider r, imap_server = Some (r_imap_server r),
     imap_port = Some (r_imap_port r), smtp_server = Some (r_smtp_server r),
     smtp_port = Some (r_smtp_port r), smtp_secure = Some (r_smtp_secure r),
     trash_folder = Some (r_trash_folder r), requiresImapId = r_requiresImapId r \<rparr>"

section \<open>String operations of the JavaScript library\<close>

definition toLowerCase_char :: "char \<Rightarrow> char" where
  \<comment> \<open>lower case of one code unit below U+0100: A to Z and the accented capitals
      U+00C0 to U+00DE (the multiplication sign U+00D7 apart) move up by 32\<close>
  "toLowerCase_char c = (let n = (of_char c :: nat) in
     if (65 \<le> n \<and> n \<le> 90) \<or> (192 \<le> n \<and> n \<le> 222 \<and> n \<noteq> 215)
     then char_of (n + 32) else c)"

definition toLowerCase :: "string \<Rightarrow> string" where
  "toLowerCase s = map toLowerCase_char s"

definition startsWith :: "string \<Rightarrow> string \<Rightarrow> bool" where
  "startsWith s p = (take (length p) s = p)"

definition isWhiteSpace :: "char \<Rightarrow> bool" where
  \<comment> \<open>the code units below U+0100 that \<open>trim\<close> removes: TAB, LF, VT, FF, CR, SP, NBSP\<close>
  "isWhiteSpace c = ((of_char c :: nat) \<in> {9, 10, 11, 12, 13, 32, 160})"

definition trim :: "string \<Rightarrow> string" where
  "trim s = rev (dropWhile isWhiteSpace (rev (dropWhile isWhiteSpace s)))"

fun split :: "char \<Rightarrow> string \<Rightarrow> string list" where
  \<comment> \<open>\<open>s.split(c)\<close> for a separator of one character; the split of the empty string is
      the list of one empty string\<close>
  "split c [] = [[]]"
| "split c (x # xs) =
     (if x = c then [] # split c xs
      else (case split c xs of [] \<Rightarrow> [[x]] | w # ws \<Rightarrow> (x # w) # ws))"

fun join :: "string \<Rightarrow> string list \<Rightarrow> string" where
  "join sep [] = []"
| "join sep [x] = x"
| "join sep (x # y # ys) = x @ sep @ join sep (y # ys)"

definition replace_newlines :: "string \<Rightarrow> string \<Rightarrow> string" where
  \<comment> \<open>\<open>s.replace(/\n/g, r)\<close>\<close>
  "replace_newlines r s = concat (map (\<lambda>c. if c = CHR 0x0A then r else [c]) s)"

section \<open>smtp-client.ts\<close>

fun match_angle :: "string \<Rightarrow> string option" where
  \<comment> \<open>group 1 of the leftmost match of \<open>/<([^>]+)>/\<close>: at each \<open><\<close>, the longest run of
      characters other than \<open>>\<close> must be non-empty and be followed by \<open>>\<close>\<close>
  "match_angle [] = None"
| "match_angle (c # cs) =
     (if c = CHR ''<'' \<and> takeWhile (\<lambda>x. x \<noteq> CHR ''>'') cs \<noteq> []
         \<and> dropWhile (\<lambda>x. x \<noteq> CHR ''>'') cs \<noteq> []
      then Some (takeWhile (\<lambda>x. x \<noteq> CHR ''>'') cs)
      else match_angle cs)"

definition extractEmailAddress :: "string \<Rightarrow> string" where
  "extractEmailAddress address =
     (case match_angle address of Some m \<Rightarrow> m | None \<Rightarrow> trim address)"

record original_message =
  o_from :: string
  o_to :: string
  o_cc :: "string option"
  o_subject :: string
  o_messageId :: string
  o_date :: string
  o_body :: string

record AttachmentInput =
  ai_filename :: string
  ai_content :: string
  ai_contentType :: "string option"

record SendEmailOptions =
  se_to :: "string list"
  se_subject :: string
  se_body :: string
  se_isHtml :: "bool option"
  se_cc :: "string list option"
  se_bcc :: "string list option"
  se_replyTo :: "string option"
  se_attachments :: "AttachmentInput list option"
  se_inReplyTo :: "string option"
  se_references :: "string option"

fun reply_cc_loop :: "string \<Rightarrow> string list \<Rightarrow> string list \<Rightarrow> string list \<Rightarrow> string list" where
  \<comment> \<open>the \<open>for (const addr of [...originalTo, ...originalCc])\<close> loop of \<open>replyEmail\<close>;
      \<open>own\<close> is \<open>this.account.email\<close>, \<open>cc\<close> the list built so far\<close>
  "reply_cc_loop own to cc [] = cc"
| "reply_cc_loop own to cc (addr # addrs) =
     (let email = extractEmailAddress addr in
      if email \<noteq> [] \<and> email \<noteq> own \<and> email \<notin> set to
      then reply_cc_loop own to (cc @ [email]) addrs
      else reply_cc_loop own to cc addrs)"

definition reply_recipients :: "ResolvedAccount \<Rightarrow> original_message \<Rightarrow> bool \<Rightarrow> string list \<times> string list" where
  \<comment> \<open>the lists \<open>to\<close> and \<open>cc\<close> of \<open>replyEmail\<close> after the \<open>if (replyAll)\<close> block\<close>
  "reply_recipients account original replyAll =
     (let to = [extractEmailAddress (o_from original)] in
      if replyAll then
        (let originalTo = map trim (split CHR '','' (o_to original));
             originalCc = (case o_cc original of
                             Some c \<Rightarrow> map trim (split CHR '','' c) | None \<Rightarrow> [])
         in (to, reply_cc_loop (r_email account) to [] (originalTo @ originalCc)))
      else (to, []))"

definition reply_subject :: "string \<Rightarrow> string" where
  "reply_subject subject =
     (if \<not> startsWith (toLowerCase subject) ''re:'' then ''Re: '' @ subject else subject)"

definition formatQuotedReply :: "original_message \<Rightarrow> string \<Rightarrow> bool \<Rightarrow> string" where
  "formatQuotedReply original replyBody isHtml =
     (let quotedLines = join [CHR 0x0A]
            (map (\<lambda>line. ''> '' @ line) (split (CHR 0x0A) (o_body original)));
          header = ''On '' @ o_date original @ '', '' @ o_from original @ '' wrote:''
      in if isHtml
         then replyBody @ ''<br><br><blockquote>'' @ header @ ''<br>'' @
              replace_newlines ''<br>'' (o_body original) @ ''</blockquote>''
         else replyBody @ [CHR 0x0A, CHR 0x0A] @ header @ [CHR 0x0A] @ quotedLines)"

definition replyEmail :: "ResolvedAccount \<Rightarrow> original_message \<Rightarrow> string \<Rightarrow> bool \<Rightarrow> bool \<Rightarrow> SendEmailOptions" where
  \<comment> \<open>the options object that \<open>replyEmail\<close> hands to \<open>sendEmail\<close>\<close>
  "replyEmail account original body replyAll isHtml =
     (let (to, cc) = reply_recipients account original replyAll;
          subject = reply_subject (o_subject original);
          quotedBody = formatQuotedReply original body isHtml
      in \<lparr> se_to = to, se_subject = subject, se_body = quotedBody, se_isHtml = Some isHtml,
           se_cc = (if length cc > 0 then Some cc else None), se_bcc = None,
           se_replyTo = None, se_attachments = None,
           se_inReplyTo = Some (o_messageId original),
           se_references = Some (o_messageId original) \<rparr>)"

definition forward_subject :: "string \<Rightarrow> string" where
  "forward_subject subject =
     (if \<not> startsWith (toLowerCase subject) ''fwd:'' then ''Fwd: '' @ subject else subject)"

definition formatForwardedMessage :: "original_message \<Rightarrow> string option \<Rightarrow> string" where
  "formatForwardedMessage original comment =
     (let lines = [''---------- Forwarded message ----------'',
                   ''From: '' @ o_from original,
                   ''Date: '' @ o_date original,
                   ''Subject: '' @ o_subject original,
                   ''To: '' @ o_to original];
          lines = (if truthy (o_cc original) then lines @ [''Cc: '' @ the (o_cc original)]
                   else lines);
          lines = lines @ [[], o_body original]
      in if truthy comment then the comment @ [CHR 0x0A, CHR 0x0A] @ join [CHR 0x0A] lines
         else join [CHR 0x0A] lines)"

definition forwardEmail :: "original_message \<Rightarrow> string list \<Rightarrow> string option \<Rightarrow> AttachmentInput list option \<Rightarrow> SendEmailOptions" where
  \<comment> \<open>the options object that \<open>forwardEmail\<close> hands to \<open>sendEmail\<close>\<close>
  "forwardEmail original to comment attachments =
     \<lparr> se_to = to, se_subject = forward_subject (o_subject original),
       se_body = formatForwardedMessage original comment, se_isHtml = Some False,
       se_cc = None, se_bcc = None, se_replyTo = None, se_attachments = attachments,
       se_inReplyTo = None, se_references = None \<rparr>"

section \<open>imap-client.ts: data\<close>

record EmailSummary =
  s_uid :: nat
  s_from :: string
  s_to :: string
  s_subject :: string
  s_date :: string
  s_seen :: bool
  s_flagged :: bool
  s_hasAttachments :: bool
  s_preview :: string

record AttachmentInfo =
  at_filename :: string
  at_contentType :: string
  at_size :: nat
  at_content :: "string option"

record EmailDetail =
  d_uid :: nat
  d_from :: string
  d_to :: string
  d_cc :: string
  d_bcc :: string
  d_subject :: string
  d_date :: string
  d_messageId :: string
  d_seen :: bool
  d_flagged :: bool
  d_hasAttachments :: bool
  d_preview :: string
  d_textBody :: string
  d_htmlBody :: string
  d_attachments :: "AttachmentInfo list"

datatype searchIn = In_all | In_subject | In_from | In_to | In_body

record SearchCriteria =
  c_query :: "string option"
  c_searchIn :: "searchIn option"
  c_dateFrom :: "string option"
  c_dateTo :: "string option"
  c_unreadOnly :: "bool option"
  c_flaggedOnly :: "bool option"

text \<open>
  What the libraries hand to the client: the message objects of imapflow's \<open>fetch\<close>, and the
  parsed mail of mailparser. A \<open>Date\<close> is kept as the string it was made from
  (\<open>new Date(s)\<close>); whether it renders with \<open>toISOString()\<close>, and to what, is left to the
  environment, since that call throws on a date that is not valid. A \<open>Buffer\<close> is kept as a
  string.
\<close>

datatype js_date = Date string

record address =
  ad_name :: "string option"
  ad_address :: "string option"

record envelope =
  en_from :: "address list option"
  en_to :: "address list option"
  en_cc :: "address list option"
  en_bcc :: "address list option"
  en_subject :: "string option"
  en_date :: "js_date option"
  en_messageId :: "string option"

datatype bodyStructure =
  BodyStructure (disposition: "string option") (childNodes: "bodyStructure list option")

record FetchMessageObject =
  m_uid :: nat
  m_envelope :: "envelope option"
  m_flags :: "string list option"
  m_bodyStructure :: "bodyStructure option"
  m_source :: "string option"

record Attachment =
  pa_filename :: "string option"
  pa_contentType :: "string option"
  pa_size :: "nat option"
  pa_content :: "string option"

record ParsedMail =
  pm_text :: "string option"
  pm_html :: "string option"
  pm_attachments :: "Attachment list option"

text \<open>
  The search object given to imapflow's \<open>search\<close>: the keys that \<open>listEmails\<close> and
  \<open>buildSearchQuery\<close> can set. A key that was never set is \<open>None\<close>. The entries of the \<open>or\<close>
  array are objects of one key each.
\<close>

datatype or_entry = Or_subject string | Or_from string | Or_to string | Or_body string

record SearchObject =
  q_subject :: "string option"
  q_from :: "string option"
  q_to :: "string option"
  q_body :: "string option"
  q_or :: "or_entry list option"
  q_since :: "js_date option"
  q_before :: "js_date option"
  q_unseen :: "bool option"
  q_flagged :: "bool option"
  q_all :: "bool option"

definition empty_query :: SearchObject where
  \<comment> \<open>the object literal \<open>{}\<close>\<close>
  "empty_query = \<lparr> q_subject = None, q_from = None, q_to = None, q_body = None, q_or = None,
     q_since = None, q_before = None, q_unseen = None, q_flagged = None, q_all = None \<rparr>"

definition keys_length :: "SearchObject \<Rightarrow> nat" where
  \<comment> \<open>\<open>Object.keys(query).length\<close>\<close>
  "keys_length q =
     (if q_subject q = None then 0 else 1) + (if q_from q = None then 0 else 1) +
     (if q_to q = None then 0 else 1) + (if q_body q = None then 0 else 1) +
     (if q_or q = None then 0 else 1) + (if q_since q = None then 0 else 1) +
     (if q_before q = None then 0 else 1) + (if q_unseen q = None then 0 else 1) +
     (if q_flagged q = None then 0 else 1) + (if q_all q = None then 0 else 1)"

section \<open>imap-client.ts: the private helpers\<close>

record clientInfo =
  ci_name :: string
  ci_version :: string
  ci_vendor :: string
  ci_support_url :: string

record clientOptions =
  co_host :: string
  co_port :: int
  co_secure :: bool
  co_auth_user :: string
  co_auth_pass :: string
  co_logger :: bool
  co_connectionTimeout :: nat
  co_greetingTimeout :: nat
  co_socketTimeout :: nat
  co_clientInfo :: "clientInfo option"

definition createClient :: "ResolvedAccount \<Rightarrow> clientOptions" where
  \<comment> \<open>the options that \<open>createClient\<close> gives to \<open>new ImapFlow\<close>\<close>
  "createClient account =
     (let clientOptions = \<lparr> co_host = r_imap_server account, co_port = r_imap_port account,
            co_secure = True, co_auth_user = r_email account,
            co_auth_pass = r_password account, co_logger = False,
            co_connectionTimeout = 30000, co_greetingTimeout = 15000,
            co_socketTimeout = 60000, co_clientInfo = None \<rparr>
      in if r_requiresImapId account = Some True
         then clientOptions \<lparr> co_clientInfo := Some \<lparr> ci_name = ''Mozilla Thunderbird'',
                ci_version = ''91.0'', ci_vendor = ''Mozilla'',
                ci_support_url = ''https://support.mozilla.org/'' \<rparr> \<rparr>
         else clientOptions)"

definition buildSearchQuery :: "SearchCriteria \<Rightarrow> SearchObject" where
  "buildSearchQuery criteria =
     (let query = empty_query;
          query = (if truthy (c_query criteria) then
                     (let kw = the (c_query criteria) in
                      case nullish_or (c_searchIn criteria) In_all of
                        In_subject \<Rightarrow> query \<lparr> q_subject := Some kw \<rparr>
                      | In_from \<Rightarrow> query \<lparr> q_from := Some kw \<rparr>
                      | In_to \<Rightarrow> query \<lparr> q_to := Some kw \<rparr>
                      | In_body \<Rightarrow> query \<lparr> q_body := Some kw \<rparr>
                      | In_all \<Rightarrow> query \<lparr> q_or := Some [Or_subject kw, Or_from kw,
                                                             Or_to kw, Or_body kw] \<rparr>)
                   else query);
          query = (if truthy (c_dateFrom criteria)
                   then query \<lparr> q_since := Some (Date (the (c_dateFrom criteria))) \<rparr>
                   else query);
          query = (if truthy (c_dateTo criteria)
                   then query \<lparr> q_before := Some (Date (the (c_dateTo criteria))) \<rparr>
                   else query);
          query = (if c_unreadOnly criteria = Some True
                   then query \<lparr> q_unseen := Some True \<rparr> else query);
          query = (if c_flaggedOnly criteria = Some True
                   then query \<lparr> q_flagged := Some True \<rparr> else query);
          query = (if keys_length query = 0 then query \<lparr> q_all := Some True \<rparr> else query)
      in query)"

definition format_one :: "address \<Rightarrow> string" where
  \<comment> \<open>the function mapped over the addresses in \<open>formatAddress\<close>\<close>
  "format_one addr =
     (if truthy (ad_name addr) \<and> truthy (ad_address addr)
      then the (ad_name addr) @ '' <'' @ the (ad_address addr) @ ''>''
      else nullish_or (ad_address addr) (nullish_or (ad_name addr) []))"

definition formatAddress :: "address list option \<Rightarrow> string" where
  "formatAddress addresses = (case addresses of
     None \<Rightarrow> []
   | Some as \<Rightarrow> if length as = 0 then []
               else join '', '' (filter (\<lambda>s. s \<noteq> []) (map format_one as)))"

fun check :: "bodyStructure \<Rightarrow> bool" where
  "check (BodyStructure disp children) =
     (if disp = Some ''attachment'' then True
      else (case children of Some cs \<Rightarrow> list_ex check cs | None \<Rightarrow> False))"

definition hasAttachments :: "bodyStructure option \<Rightarrow> bool" where
  "hasAttachments bs = (case bs of None \<Rightarrow> False | Some part \<Rightarrow> check part)"

definition extractAttachments :: "(string \<Rightarrow> string) \<Rightarrow> Attachment list option \<Rightarrow> bool \<Rightarrow> AttachmentInfo list" where
  \<comment> \<open>\<open>base64\<close> is \<open>Buffer.toString('base64')\<close>\<close>
  "extractAttachments base64 attachments includeContent = (case attachments of
     None \<Rightarrow> []
   | Some atts \<Rightarrow> map (\<lambda>att.
       (let info = \<lparr> at_filename = nullish_or (pa_filename att) ''attachment'',
                     at_contentType = nullish_or (pa_contentType att) ''application/octet-stream'',
                     at_size = nullish_or (pa_size att) 0, at_content = None \<rparr>
        in if includeContent \<and> pa_content att \<noteq> None
           then info \<lparr> at_content := Some (base64 (the (pa_content att))) \<rparr>
           else info)) atts)"

definition no_subject :: string where
  \<comment> \<open>the default subject of the sources, four characters in brackets, as UTF-8 bytes\<close>
  "no_subject = [CHR 0x28, CHR 0xE6, CHR 0x97, CHR 0xA0, CHR 0xE4, CHR 0xB8, CHR 0xBB,
                 CHR 0xE9, CHR 0xA2, CHR 0x98, CHR 0x29]"

definition render_date :: "(js_date \<Rightarrow> error + string) \<Rightarrow> envelope option \<Rightarrow> error + string" where
  \<comment> \<open>\<open>envelope?.date?.toISOString() ?? ''\<close>\<close>
  "render_date toISOString envelope = (case Option.bind envelope en_date of
     None \<Rightarrow> Inr [] | Some d \<Rightarrow> toISOString d)"

definition parseEmailSummary :: "(string \<Rightarrow> string) \<Rightarrow> (js_date \<Rightarrow> error + string) \<Rightarrow> FetchMessageObject \<Rightarrow> error + EmailSummary" where
  \<comment> \<open>\<open>preview_of\<close> is the text that the regular expressions of \<open>parseEmailSummary\<close> cut out
      of the fetched source, before the final \<open>trim\<close>; no property below depends on it.
      The one expression that can throw is the rendering of the date.\<close>
  "parseEmailSummary preview_of toISOString msg =
     (let envelope = m_envelope msg;
          flags = nullish_or (m_flags msg) [];
          preview = (case m_source msg of Some src \<Rightarrow> preview_of src | None \<Rightarrow> [])
      in case render_date toISOString envelope of
           Inl e \<Rightarrow> Inl e
         | Inr date \<Rightarrow> Inr \<lparr> s_uid = m_uid msg,
             s_from = (case envelope of Some e \<Rightarrow> formatAddress (en_from e) | None \<Rightarrow> []),
             s_to = (case envelope of Some e \<Rightarrow> formatAddress (en_to e) | None \<Rightarrow> []),
             s_subject = nullish_or (Option.bind envelope en_subject) no_subject,
             s_date = date,
             s_seen = ((CHR 0x5C # ''Seen'') \<in> set flags),
             s_flagged = ((CHR 0x5C # ''Flagged'') \<in> set flags),
             s_hasAttachments = hasAttachments (m_bodyStructure msg),
             s_preview = trim preview \<rparr>)"

definition parseEmailDetail :: "(string \<Rightarrow> string) \<Rightarrow> (js_date \<Rightarrow> error + string) \<Rightarrow> FetchMessageObject \<Rightarrow> ParsedMail \<Rightarrow> bool \<Rightarrow> error + EmailDetail" where
  "parseEmailDetail base64 toISOString msg parsed includeAttachmentContent =
     (let envelope = m_envelope msg;
          flags = nullish_or (m_flags msg) []
      in case render_date toISOString envelope of
           Inl e \<Rightarrow> Inl e
         | Inr date \<Rightarrow> Inr \<lparr> d_uid = m_uid msg,
           d_from = (case envelope of Some e \<Rightarrow> formatAddress (en_from e) | None \<Rightarrow> []),
           d_to = (case envelope of Some e \<Rightarrow> formatAddress (en_to e) | None \<Rightarrow> []),
           d_cc = (case envelope of Some e \<Rightarrow> formatAddress (en_cc e) | None \<Rightarrow> []),
           d_bcc = (case envelope of Some e \<Rightarrow> formatAddress (en_bcc e) | None \<Rightarrow> []),
           d_subject = nullish_or (Option.bind envelope en_subject) no_subject,
           d_date = date,
           d_messageId = nullish_or (Option.bind envelope en_messageId) [],
           d_seen = ((CHR 0x5C # ''Seen'') \<in> set flags),
           d_flagged = ((CHR 0x5C # ''Flagged'') \<in> set flags),
           d_hasAttachments =
             (nullish_or (map_option length (pm_attachments parsed)) 0 > 0),
           d_preview = take 200 (nullish_or (pm_text parsed) []),
           d_textBody = nullish_or (pm_text parsed) [],
           d_htmlBody = nullish_or (pm_html parsed) [],
           d_attachments = extractAttachments base64 (pm_attachments parsed)
                             includeAttachmentContent \<rparr>)"

section \<open>imap-client.ts: the session\<close>

text \<open>
  The client talks to the server through imapflow. What the library and the server answer
  is the environment of an operation: one answer for each call the client can make, an
  error standing for a rejected promise or a thrown exception. The answer to \<open>fetch\<close> is the
  list of messages that its iterator yields, and the error that ends it, if any. The
  operations are functions of that environment.
\<close>

record imap_env =
  connect_r :: "error option"
  logout_r :: "error option"
  getMailboxLock_r :: "string \<Rightarrow> error option"
  search_r :: "SearchObject \<Rightarrow> error + nat list option"
  fetch_r :: "nat list \<Rightarrow> FetchMessageObject list \<times> error option"
  fetchOne_r :: "string \<Rightarrow> error + FetchMessageObject option"
  messageFlagsAdd_r :: "nat list \<Rightarrow> string list \<Rightarrow> error option"
  messageFlagsRemove_r :: "nat list \<Rightarrow> string list \<Rightarrow> error option"
  messageDelete_r :: "nat list \<Rightarrow> error option"
  messageMove_r :: "nat list \<Rightarrow> string \<Rightarrow> error option"
  simpleParser_r :: "string \<Rightarrow> error + ParsedMail"
  toISOString_r :: "js_date \<Rightarrow> error + string"
  preview_of :: "string \<Rightarrow> string"
  base64 :: "string \<Rightarrow> string"

text \<open>
  The state of one session: whether its connection is open, and the mailbox whose lock it
  holds. \<open>logout\<close> ends the connection whether or not the server acknowledges it.
\<close>

record session =
  connected :: bool
  lock :: "string option"

definition fresh :: session where
  \<comment> \<open>the session of a client that \<open>createClient\<close> has just made\<close>
  "fresh = \<lparr> connected = False, lock = None \<rparr>"

type_synonym 'a imap = "session \<Rightarrow> (error + 'a) \<times> session"

definition imap_return :: "'a \<Rightarrow> 'a imap" where
  "imap_return x = (\<lambda>s. (Inr x, s))"

definition imap_bind :: "'a imap \<Rightarrow> ('a \<Rightarrow> 'b imap) \<Rightarrow> 'b imap" where
  \<comment> \<open>\<open>const x = await m; ...\<close>: an error of \<open>m\<close> ends the sequence\<close>
  "imap_bind m f = (\<lambda>s. case m s of (Inl e, s') \<Rightarrow> (Inl e, s') | (Inr x, s') \<Rightarrow> f x s')"

definition try_finally :: "'a imap \<Rightarrow> unit imap \<Rightarrow> 'a imap" where
  \<comment> \<open>\<open>try { m } finally { fin }\<close>: \<open>fin\<close> runs on both exits of \<open>m\<close>; an error of \<open>fin\<close>
      replaces the outcome of \<open>m\<close>\<close>
  "try_finally m fin = (\<lambda>s. case m s of (r, s') \<Rightarrow>
     (case fin s' of (Inl e, s'') \<Rightarrow> (Inl e, s'') | (Inr _, s'') \<Rightarrow> (r, s'')))"

definition catch_ignore :: "unit imap \<Rightarrow> unit imap" where
  \<comment> \<open>\<open>m.catch(() => {})\<close>\<close>
  "catch_ignore m = (\<lambda>s. case m s of (_, s') \<Rightarrow> (Inr (), s'))"

definition call :: "error + 'a \<Rightarrow> 'a imap" where
  \<comment> \<open>a call whose answer the environment gives, and that leaves the session as it is\<close>
  "call r = (\<lambda>s. (r, s))"

definition call_unit :: "error option \<Rightarrow> unit imap" where
  "call_unit r = (\<lambda>s. (case r of Some e \<Rightarrow> Inl e | None \<Rightarrow> Inr (), s))"

definition connect :: "imap_env \<Rightarrow> unit imap" where
  "connect env = (\<lambda>s. case connect_r env of
     Some e \<Rightarrow> (Inl e, s) | None \<Rightarrow> (Inr (), s \<lparr> connected := True \<rparr>))"

definition logout :: "imap_env \<Rightarrow> unit imap" where
  "logout env = (\<lambda>s. (case logout_r env of Some e \<Rightarrow> Inl e | None \<Rightarrow> Inr (),
                       s \<lparr> connected := False \<rparr>))"

definition getMailboxLock :: "imap_env \<Rightarrow> string \<Rightarrow> unit imap" where
  "getMailboxLock env path = (\<lambda>s. case getMailboxLock_r env path of
     Some e \<Rightarrow> (Inl e, s) | None \<Rightarrow> (Inr (), s \<lparr> lock := Some path \<rparr>))"

definition release :: "unit imap" where
  \<comment> \<open>\<open>lock.release()\<close>\<close>
  "release = (\<lambda>s. (Inr (), s \<lparr> lock := None \<rparr>))"

definition withConnection :: "imap_env \<Rightarrow> 'a imap \<Rightarrow> 'a imap" where
  "withConnection env operation =
     try_finally (imap_bind (connect env) (\<lambda>_. operation)) (catch_ignore (logout env))"

subsection \<open>Numbers\<close>

text \<open>
  A UID is a natural number. A limit is a JavaScript number; the integers are modelled.
\<close>

definition sort_desc :: "nat list \<Rightarrow> nat list" where
  \<comment> \<open>\<open>[...xs].sort((a, b) => b - a)\<close>\<close>
  "sort_desc xs = rev (sort xs)"

definition slice0 :: "int \<Rightarrow> 'a list \<Rightarrow> 'a list" where
  \<comment> \<open>\<open>xs.slice(0, n)\<close>: a negative \<open>n\<close> counts from the end of the list\<close>
  "slice0 n xs = (if n < 0 then take (nat (int (length xs) + n)) xs else take (nat n) xs)"

fun toString :: "nat \<Rightarrow> string" where
  \<comment> \<open>\<open>uid.toString()\<close>: the decimal digits\<close>
  "toString n = (if n < 10 then [char_of (48 + n)]
                 else toString (n div 10) @ [char_of (48 + n mod 10)])"

declare toString.simps [simp del]

subsection \<open>The operations\<close>

definition list_query :: "bool \<Rightarrow> SearchObject" where
  \<comment> \<open>the \<open>searchCriteria\<close> of \<open>listEmails\<close>\<close>
  "list_query unreadOnly =
     (let searchCriteria = empty_query \<lparr> q_all := Some True \<rparr>
      in if unreadOnly then searchCriteria \<lparr> q_all := None, q_unseen := Some True \<rparr>
         else searchCriteria)"

fun fetch_loop :: "imap_env \<Rightarrow> EmailSummary list \<Rightarrow> FetchMessageObject list \<times> error option \<Rightarrow> error + EmailSummary list" where
  \<comment> \<open>\<open>for await (const msg of client.fetch(...)) emails.push(this.parseEmailSummary(msg))\<close>,
      \<open>emails\<close> being the list pushed so far\<close>
  "fetch_loop env emails ([], None) = Inr emails"
| "fetch_loop env emails ([], Some e) = Inl e"
| "fetch_loop env emails (msg # msgs, ending) =
     (case parseEmailSummary (preview_of env) (toISOString_r env) msg of
        Inl e \<Rightarrow> Inl e
      | Inr summary \<Rightarrow> fetch_loop env (emails @ [summary]) (msgs, ending))"

definition fetch_summaries :: "imap_env \<Rightarrow> SearchObject \<Rightarrow> int \<Rightarrow> EmailSummary list imap" where
  \<comment> \<open>the part that \<open>listEmails\<close> and \<open>searchEmails\<close> have in common: search, sort, slice,
      fetch, and one summary for each message in the order in which \<open>fetch\<close> yields them\<close>
  "fetch_summaries env query limit =
     imap_bind (call (search_r env query)) (\<lambda>searchResult.
       case searchResult of
         None \<Rightarrow> imap_return []
       | Some uids \<Rightarrow>
           if length uids = 0 then imap_return []
           else (let sortedUids = slice0 limit (sort_desc uids)
                 in call (fetch_loop env [] (fetch_r env sortedUids))))"

definition listEmails :: "imap_env \<Rightarrow> string option \<Rightarrow> int option \<Rightarrow> bool option \<Rightarrow> EmailSummary list imap" where
  "listEmails env folder_opt limit_opt unreadOnly_opt =
     (let folder = nullish_or folder_opt ''INBOX'';
          limit = nullish_or limit_opt 20;
          unreadOnly = nullish_or unreadOnly_opt False
      in withConnection env
           (imap_bind (getMailboxLock env folder) (\<lambda>_.
              try_finally (fetch_summaries env (list_query unreadOnly) limit) release)))"

definition searchEmails :: "imap_env \<Rightarrow> SearchCriteria \<Rightarrow> string option \<Rightarrow> int option \<Rightarrow> EmailSummary list imap" where
  "searchEmails env criteria folder_opt limit_opt =
     (let folder = nullish_or folder_opt ''INBOX'';
          limit = nullish_or limit_opt 50
      in withConnection env
           (imap_bind (getMailboxLock env folder) (\<lambda>_.
              try_finally (fetch_summaries env (buildSearchQuery criteria) limit) release)))"

definition getEmailDetail :: "imap_env \<Rightarrow> nat \<Rightarrow> string option \<Rightarrow> bool option \<Rightarrow> EmailDetail option imap" where
  \<comment> \<open>the result \<open>None\<close> is \<open>null\<close>\<close>
  "getEmailDetail env uid folder_opt includeAttachmentContent_opt =
     (let folder = nullish_or folder_opt ''INBOX'';
          includeAttachmentContent = nullish_or includeAttachmentContent_opt False
      in withConnection env
           (imap_bind (getMailboxLock env folder) (\<lambda>_.
              try_finally
                (imap_bind (call (fetchOne_r env (toString uid))) (\<lambda>message.
                   case message of
                     None \<Rightarrow> imap_return None
                   | Some msg \<Rightarrow>
                       (case m_source msg of
                          None \<Rightarrow> imap_return None
                        | Some src \<Rightarrow>
                            imap_bind (call (simpleParser_r env src)) (\<lambda>parsed.
                              imap_bind
                                (call (parseEmailDetail (base64 env) (toISOString_r env) msg
                                         parsed includeAttachmentContent))
                                (\<lambda>detail. imap_return (Some detail))))))
                release)))"

datatype markAs = Mark_read | Mark_unread

record count_result =
  success :: bool
  count :: nat

definition markEmails :: "imap_env \<Rightarrow> nat list \<Rightarrow> string option \<Rightarrow> markAs \<Rightarrow> count_result imap" where
  "markEmails env uids folder_opt markAs =
     (let folder = nullish_or folder_opt ''INBOX''
      in withConnection env
           (imap_bind (getMailboxLock env folder) (\<lambda>_.
              try_finally
                (let flag = CHR 0x5C # ''Seen''
                 in imap_bind
                      (if markAs = Mark_read
                       then call_unit (messageFlagsAdd_r env uids [flag])
                       else call_unit (messageFlagsRemove_r env uids [flag]))
                      (\<lambda>_. imap_return \<lparr> success = True, count = length uids \<rparr>))
                release)))"

definition flagEmail :: "imap_env \<Rightarrow> nat \<Rightarrow> string option \<Rightarrow> bool \<Rightarrow> bool imap" where
  \<comment> \<open>the result is the \<open>success\<close> field of the returned object\<close>
  "flagEmail env uid folder_opt setFlag =
     (let folder = nullish_or folder_opt ''INBOX''
      in withConnection env
           (imap_bind (getMailboxLock env folder) (\<lambda>_.
              try_finally
                (let flag = CHR 0x5C # ''Flagged''
                 in imap_bind
                      (if setFlag
                       then call_unit (messageFlagsAdd_r env [uid] [flag])
                       else call_unit (messageFlagsRemove_r env [uid] [flag]))
                      (\<lambda>_. imap_return True))
                release)))"

definition deleteEmails :: "imap_env \<Rightarrow> ResolvedAccount \<Rightarrow> nat list \<Rightarrow> string option \<Rightarrow> bool option \<Rightarrow> count_result imap" where
  "deleteEmails env account uids folder_opt permanent_opt =
     (let folder = nullish_or folder_opt ''INBOX'';
          permanent = nullish_or permanent_opt False
      in withConnection env
           (imap_bind (getMailboxLock env folder) (\<lambda>_.
              try_finally
                (imap_bind
                   (if permanent
                    then imap_bind (call_unit (messageFlagsAdd_r env uids [CHR 0x5C # ''Deleted'']))
                           (\<lambda>_. call_unit (messageDelete_r env uids))
                    else call_unit (messageMove_r env uids (r_trash_folder account)))
                   (\<lambda>_. imap_return \<lparr> success = True, count = length uids \<rparr>))
                release)))"

definition moveEmails :: "imap_env \<Rightarrow> nat list \<Rightarrow> string option \<Rightarrow> string \<Rightarrow> count_result imap" where
  "moveEmails env uids sourceFolder_opt targetFolder =
     (let sourceFolder = nullish_or sourceFolder_opt ''INBOX''
      in withConnection env
           (imap_bind (getMailboxLock env sourceFolder) (\<lambda>_.
              try_finally
                (imap_bind (call_unit (messageMove_r env uids targetFolder))
                   (\<lambda>_. imap_return \<lparr> success = True, count = length uids \<rparr>))
                release)))"

definition getAttachments :: "imap_env \<Rightarrow> nat \<Rightarrow> string option \<Rightarrow> AttachmentInfo list imap" where
  "getAttachments env uid folder_opt =
     (let folder = nullish_or folder_opt ''INBOX''
      in withConnection env
           (imap_bind (getMailboxLock env folder) (\<lambda>_.
              try_finally
                (imap_bind (call (fetchOne_r env (toString uid))) (\<lambda>message.
                   case message of
                     None \<Rightarrow> imap_return []
                   | Some msg \<Rightarrow>
                       (case m_source msg of
                          None \<Rightarrow> imap_return []
                        | Some src \<Rightarrow>
                            imap_bind (call (simpleParser_r env src)) (\<lambda>parsed.
                              imap_return (extractAttachments (base64 env)
                                             (pm_attachments parsed) True)))))
                release)))"

section \<open>tools/list.ts and the search tool\<close>



section \<open>Example inputs\<close>

definition gmail_account :: Account where
  "gmail_account = \<lparr> account_id = ''work'', email = ''me@gmail.com'', password = ''secret'',
     provider = Preset Gmail, imap_server = None, imap_port = None, smtp_server = None,
     smtp_port = None, smtp_secure = None, trash_folder = None, requiresImapId = None \<rparr>"

definition custom_account :: Account where
  "custom_account = \<lparr> account_id = ''own'', email = ''me@example.com'', password = ''secret'',
     provider = Custom, imap_server = Some ''imap.example.com'', imap_port = None,
     smtp_server = Some ''smtp.example.com'', smtp_port = None, smtp_secure = None,
     trash_folder = None, requiresImapId = None \<rparr>"

definition custom_resolved :: ResolvedAccount where
  "custom_resolved = \<lparr> r_account_id = ''own'', r_email = ''me@example.com'',
     r_password = ''secret'', r_provider = Custom, r_imap_server = ''imap.example.com'',
     r_imap_port = 993, r_smtp_server = ''smtp.example.com'', r_smtp_port = 465,
     r_smtp_secure = True, r_trash_folder = ''Trash'', r_requiresImapId = None \<rparr>"

definition ann_message :: original_message where
  "ann_message = \<lparr> o_from = ''Ann <ann@example.com>'',
     o_to = ''me@example.com, Bob <bob@example.com>'',
     o_cc = Some ''ann@example.com, carol@example.com'', o_subject = ''Hello'',
     o_messageId = ''<1@example.com>'', o_date = ''2024-01-01T00:00:00.000Z'',
     o_body = ''Hi'' \<rparr>"

definition own_message :: original_message where
  "own_message = \<lparr> o_from = ''Me <me@example.com>'', o_to = ''team@example.com'',
     o_cc = None, o_subject = ''Re: Hello'', o_messageId = ''<2@example.com>'',
     o_date = ''2024-01-02T00:00:00.000Z'', o_body = ''Hi'' \<rparr>"

definition recipients :: "SendEmailOptions \<Rightarrow> string list" where
  \<comment> \<open>the addresses a message goes to: \<open>to\<close> followed by \<open>cc\<close>\<close>
  "recipients options = se_to options @ (case se_cc options of Some cc \<Rightarrow> cc | None \<Rightarrow> [])"

section \<open>What a search object asks for\<close>

text \<open>
  The reading that imapflow gives to a search object: a message matches when it meets every
  key that is set; the key \<open>or\<close> is met by a message that meets one of its entries; the
  key \<open>all\<close> asks for nothing. A message is given by the set of keys it meets.
\<close>


datatype search_key = Subject string | From string | To string | Body string
  | Since js_date | Before js_date | Unseen | Flagged

definition or_key :: "or_entry \<Rightarrow> search_key" where
  "or_key e = (case e of Or_subject k \<Rightarrow> Subject k | Or_from k \<Rightarrow> From k
                 | Or_to k \<Rightarrow> To k | Or_body k \<Rightarrow> Body k)"

definition satisfies :: "(search_key \<Rightarrow> bool) \<Rightarrow> SearchObject \<Rightarrow> bool" where
  "satisfies msg q =
     ((case q_subject q of Some k \<Rightarrow> msg (Subject k) | None \<Rightarrow> True) \<and>
      (case q_from q of Some k \<Rightarrow> msg (From k) | None \<Rightarrow> True) \<and>
      (case q_to q of Some k \<Rightarrow> msg (To k) | None \<Rightarrow> True) \<and>
      (case q_body q of Some k \<Rightarrow> msg (Body k) | None \<Rightarrow> True) \<and>
      (case q_or q of Some es \<Rightarrow> list_ex (\<lambda>e. msg (or_key e)) es | None \<Rightarrow> True) \<and>
      (case q_since q of Some d \<Rightarrow> msg (Since d) | None \<Rightarrow> True) \<and>
      (case q_before q of Some d \<Rightarrow> msg (Before d) | None \<Rightarrow> True) \<and>
      (case q_unseen q of Some b \<Rightarrow> msg Unseen = b | None \<Rightarrow> True) \<and>
      (case q_flagged q of Some b \<Rightarrow> msg Flagged = b | None \<Rightarrow> True))"

definition keyword_query :: "SearchCriteria \<Rightarrow> SearchObject" where
  \<comment> \<open>the search object of \<open>buildSearchQuery\<close> after its keyword block\<close>
  "keyword_query c =
     (if truthy (c_query c) then
        (let kw = the (c_query c) in
         case nullish_or (c_searchIn c) In_all of
           In_subject \<Rightarrow> empty_query \<lparr> q_subject := Some kw \<rparr>
         | In_from \<Rightarrow> empty_query \<lparr> q_from := Some kw \<rparr>
         | In_to \<Rightarrow> empty_query \<lparr> q_to := Some kw \<rparr>
         | In_body \<Rightarrow> empty_query \<lparr> q_body := Some kw \<rparr>
         | In_all \<Rightarrow> empty_query \<lparr> q_or := Some [Or_subject kw, Or_from kw, Or_to kw, Or_body kw] \<rparr>)
      else empty_query)"

definition supplied :: "SearchCriteria \<Rightarrow> bool" where
  \<comment> \<open>one criterion at least is given: a non-empty keyword or date, or a flag that is true\<close>
  "supplied c = (truthy (c_query c) \<or> truthy (c_dateFrom c) \<or> truthy (c_dateTo c) \<or>
                 c_unreadOnly c = Some True \<or> c_flaggedOnly c = Some True)"

definition invoice_criteria :: SearchCriteria where
  "invoice_criteria = \<lparr> c_query = Some ''invoice'', c_searchIn = Some In_subject,
     c_dateFrom = Some ''2024-01-01'', c_dateTo = None, c_unreadOnly = Some True,
     c_flaggedOnly = None \<rparr>"

definition no_criteria :: SearchCriteria where
  "no_criteria = \<lparr> c_query = None, c_searchIn = None, c_dateFrom = None, c_dateTo = None,
     c_unreadOnly = None, c_flaggedOnly = None \<rparr>"

text \<open>
  Example servers: one that holds the messages of the given UIDs and yields the messages
  of a fetch in the order of the request; one that yields them in the order of the mailbox,
  as an IMAP server may; one that refuses to add a flag.
\<close>

definition message_of :: "nat \<Rightarrow> FetchMessageObject" where
  "message_of u = \<lparr> m_uid = u, m_envelope = None, m_flags = None, m_bodyStructure = None,
     m_source = None \<rparr>"

definition inbox_env :: "nat list \<Rightarrow> imap_env" where
  "inbox_env uids = \<lparr> connect_r = None, logout_r = None, getMailboxLock_r = (\<lambda>path. None),
     search_r = (\<lambda>query. Inr (Some uids)),
     fetch_r = (\<lambda>us. (map message_of us, None)),
     fetchOne_r = (\<lambda>range. Inr None),
     messageFlagsAdd_r = (\<lambda>us flags. None), messageFlagsRemove_r = (\<lambda>us flags. None),
     messageDelete_r = (\<lambda>us. None), messageMove_r = (\<lambda>us path. None),
     simpleParser_r = (\<lambda>src. Inl (Error ''parse'')),
     toISOString_r = (\<lambda>d. case d of Date s \<Rightarrow> Inr s),
     preview_of = (\<lambda>src. src), base64 = (\<lambda>src. src) \<rparr>"


definition failing_env :: imap_env where
  "failing_env = (inbox_env [1, 2, 3])
     \<lparr> messageFlagsAdd_r := (\<lambda>us flags. Some (Error ''NO'')) \<rparr>"


section \<open>Properties of the account resolver\<close>

lemma preset_nonempty:
  "p_imap_server (EMAIL_PROVIDERS p) \<noteq> [] \<and> p_smtp_server (EMAIL_PROVIDERS p) \<noteq> [] \<and>
   p_trash_folder (EMAIL_PROVIDERS p) \<noteq> [] \<and> 0 < p_imap_port (EMAIL_PROVIDERS p) \<and>
   0 < p_smtp_port (EMAIL_PROVIDERS p)"
  by (cases p) (simp_all add: EMAIL_PROVIDERS_def)

lemma resolve_custom_resolved: "resolveAccount custom_account = Inr custom_resolved"
  by (simp add: custom_account_def custom_resolved_def resolveAccount_def truthy_def
        nullish_or_def)

text \<open>
  C3. An account of a built-in provider with no override resolves to the hosts, ports,
  security mode and trash folder of that provider's preset, all of them non-empty. An
  account of the provider \<open>custom\<close> whose IMAP or SMTP host is missing (undefined or the empty
  string, which the test \<open>!account.imap_server\<close> does not tell apart) is rejected. An account
  of the provider \<open>custom\<close> with both hosts given resolves, and each field left out falls back
  to its default: ports 993 and 465, a secure SMTP connection, the trash folder \<open>Trash\<close>.
\<close>

theorem resolveAccount_presets:
  "(provider a = Preset p \<and> imap_server a = None \<and> imap_port a = None \<and>
    smtp_server a = None \<and> smtp_port a = None \<and> smtp_secure a = None \<and>
    trash_folder a = None \<longrightarrow>
      (\<exists>r. resolveAccount a = Inr r \<and>
           r_imap_server r = p_imap_server (EMAIL_PROVIDERS p) \<and>
           r_imap_port r = p_imap_port (EMAIL_PROVIDERS p) \<and>
           r_smtp_server r = p_smtp_server (EMAIL_PROVIDERS p) \<and>
           r_smtp_port r = p_smtp_port (EMAIL_PROVIDERS p) \<and>
           r_smtp_secure r = p_smtp_secure (EMAIL_PROVIDERS p) \<and>
           r_trash_folder r = p_trash_folder (EMAIL_PROVIDERS p) \<and>
           r_imap_server r \<noteq> [] \<and> r_smtp_server r \<noteq> [] \<and> r_trash_folder r \<noteq> [] \<and>
           0 < r_imap_port r \<and> 0 < r_smtp_port r))
   \<and> (provider a = Custom \<and> (\<not> truthy (imap_server a) \<or> \<not> truthy (smtp_server a)) \<longrightarrow>
      (\<exists>e. resolveAccount a = Inl e))
   \<and> (provider a = Custom \<and> imap_server a = Some ih \<and> ih \<noteq> [] \<and>
      smtp_server a = Some sh \<and> sh \<noteq> [] \<longrightarrow>
      (\<exists>r. resolveAccount a = Inr r \<and> r_imap_server r = ih \<and> r_smtp_server r = sh \<and>
           r_imap_port r = (case imap_port a of None \<Rightarrow> 993 | Some n \<Rightarrow> n) \<and>
           r_smtp_port r = (case smtp_port a of None \<Rightarrow> 465 | Some n \<Rightarrow> n) \<and>
           r_smtp_secure r = (case smtp_secure a of None \<Rightarrow> True | Some b \<Rightarrow> b) \<and>
           r_trash_folder r = (case trash_folder a of None \<Rightarrow> ''Trash'' | Some t \<Rightarrow> t)))"
proof (intro conjI impI)
  assume h: "provider a = Preset p \<and> imap_server a = None \<and> imap_port a = None \<and>
    smtp_server a = None \<and> smtp_port a = None \<and> smtp_secure a = None \<and>
    trash_folder a = None"
  then show "\<exists>r. resolveAccount a = Inr r \<and>
           r_imap_server r = p_imap_server (EMAIL_PROVIDERS p) \<and>
           r_imap_port r = p_imap_port (EMAIL_PROVIDERS p) \<and>
           r_smtp_server r = p_smtp_server (EMAIL_PROVIDERS p) \<and>
           r_smtp_port r = p_smtp_port (EMAIL_PROVIDERS p) \<and>
           r_smtp_secure r = p_smtp_secure (EMAIL_PROVIDERS p) \<and>
           r_trash_folder r = p_trash_folder (EMAIL_PROVIDERS p) \<and>
           r_imap_server r \<noteq> [] \<and> r_smtp_server r \<noteq> [] \<and> r_trash_folder r \<noteq> [] \<and>
           0 < r_imap_port r \<and> 0 < r_smtp_port r"
    using preset_nonempty [of p]
    by (simp add: resolveAccount_def nullish_or_def Let_def)
next
  assume "provider a = Custom \<and> (\<not> truthy (imap_server a) \<or> \<not> truthy (smtp_server a))"
  then show "\<exists>e. resolveAccount a = Inl e"
    by (auto simp add: resolveAccount_def)
next
  assume "provider a = Custom \<and> imap_server a = Some ih \<and> ih \<noteq> [] \<and>
      smtp_server a = Some sh \<and> sh \<noteq> []"
  then show "\<exists>r. resolveAccount a = Inr r \<and> r_imap_server r = ih \<and> r_smtp_server r = sh \<and>
           r_imap_port r = (case imap_port a of None \<Rightarrow> 993 | Some n \<Rightarrow> n) \<and>
           r_smtp_port r = (case smtp_port a of None \<Rightarrow> 465 | Some n \<Rightarrow> n) \<and>
           r_smtp_secure r = (case smtp_secure a of None \<Rightarrow> True | Some b \<Rightarrow> b) \<and>
           r_trash_folder r = (case trash_folder a of None \<Rightarrow> ''Trash'' | Some t \<Rightarrow> t)"
    by (simp add: resolveAccount_def nullish_or_def truthy_def)
qed

theorem resolveAccount_presets_witness:
  "provider gmail_account = Preset Gmail \<and> imap_server gmail_account = None
   \<and> provider custom_account = Custom \<and> imap_server custom_account = Some ''imap.example.com''
   \<and> smtp_server custom_account = Some ''smtp.example.com''
   \<and> (\<exists>r. resolveAccount gmail_account = Inr r \<and> r_imap_server r = ''imap.gmail.com'' \<and>
        r_imap_port r = 993 \<and> r_smtp_server r = ''smtp.gmail.com'' \<and> r_smtp_port r = 587 \<and>
        r_trash_folder r = ''[Gmail]/Trash'')
   \<and> (\<exists>e. resolveAccount (custom_account \<lparr> imap_server := None \<rparr>) = Inl e)
   \<and> (\<exists>r. resolveAccount custom_account = Inr r \<and> r_imap_port r = 993 \<and>
        r_smtp_port r = 465 \<and> r_smtp_secure r \<and> r_trash_folder r = ''Trash'')"
  using resolveAccount_presets [of gmail_account Gmail]
        resolveAccount_presets [of "custom_account \<lparr> imap_server := None \<rparr>"]
        resolveAccount_presets [of custom_account _ "''imap.example.com''" "''smtp.example.com''"]
  by (auto simp add: gmail_account_def custom_account_def EMAIL_PROVIDERS_def truthy_def)

text \<open>
  C6. Resolution is idempotent: when an account resolves, resolving the result again
  succeeds and returns the same resolved account, field by field.
\<close>

theorem resolveAccount_idempotent:
  assumes "resolveAccount a = Inr r"
  shows "resolveAccount (as_Account r) = Inr r"
proof (cases "provider a")
  case (Preset p)
  with assms have r: "r = \<lparr> r_account_id = account_id a, r_email = email a,
      r_password = password a, r_provider = Preset p,
      r_imap_server = nullish_or (imap_server a) (p_imap_server (EMAIL_PROVIDERS p)),
      r_imap_port = nullish_or (imap_port a) (p_imap_port (EMAIL_PROVIDERS p)),
      r_smtp_server = nullish_or (smtp_server a) (p_smtp_server (EMAIL_PROVIDERS p)),
      r_smtp_port = nullish_or (smtp_port a) (p_smtp_port (EMAIL_PROVIDERS p)),
      r_smtp_secure = nullish_or (smtp_secure a) (p_smtp_secure (EMAIL_PROVIDERS p)),
      r_trash_folder = nullish_or (trash_folder a) (p_trash_folder (EMAIL_PROVIDERS p)),
      r_requiresImapId =
        (case p_requiresImapId (EMAIL_PROVIDERS p) of Some b \<Rightarrow> Some b | None \<Rightarrow> Some False) \<rparr>"
    by (simp add: resolveAccount_def Let_def)
  show ?thesis
    by (simp add: r resolveAccount_def as_Account_def Let_def nullish_or_def)
next
  case Custom
  with assms have t: "truthy (imap_server a)" "truthy (smtp_server a)"
    by (auto simp add: resolveAccount_def split: if_splits)
  with Custom assms have r: "r = \<lparr> r_account_id = account_id a, r_email = email a,
      r_password = password a, r_provider = Custom,
      r_imap_server = the (imap_server a),
      r_imap_port = nullish_or (imap_port a) 993,
      r_smtp_server = the (smtp_server a),
      r_smtp_port = nullish_or (smtp_port a) 465,
      r_smtp_secure = nullish_or (smtp_secure a) True,
      r_trash_folder = nullish_or (trash_folder a) ''Trash'',
      r_requiresImapId = requiresImapId a \<rparr>"
    by (simp add: resolveAccount_def)
  from t have "the (imap_server a) \<noteq> []" "the (smtp_server a) \<noteq> []"
    by (auto simp add: truthy_def split: option.splits)
  then show ?thesis
    by (simp add: r resolveAccount_def as_Account_def nullish_or_def truthy_def)
qed

theorem resolveAccount_idempotent_witness:
  "resolveAccount custom_account = Inr custom_resolved \<and>
   resolveAccount (as_Account custom_resolved) = Inr custom_resolved"
  using resolve_custom_resolved resolveAccount_idempotent [OF resolve_custom_resolved]
  by simp

section \<open>Properties of the IMAP client options\<close>

text \<open>
  C10. The options of the IMAP client always ask for implicit TLS. They do not depend on
  the SMTP fields of the resolved account, so two resolved accounts that differ in them
  only give the same options; and whatever account was resolved, \<open>secure\<close> is true.
\<close>

theorem createClient_secure:
  "co_secure (createClient r)
   \<and> createClient (r \<lparr> r_smtp_server := h, r_smtp_port := n, r_smtp_secure := b \<rparr>)
       = createClient r
   \<and> (resolveAccount a = Inr r' \<longrightarrow> co_secure (createClient r'))"
  by (simp add: createClient_def Let_def)

theorem createClient_secure_witness:
  "resolveAccount custom_account = Inr custom_resolved \<and> co_secure (createClient custom_resolved)"
  using createClient_secure [of custom_resolved _ _ _ custom_account custom_resolved]
        resolve_custom_resolved
  by simp

section \<open>Properties of the composer\<close>

lemma of_char_toLowerCase_char:
  "(of_char (toLowerCase_char c) :: nat) =
     (if (65 \<le> (of_char c :: nat) \<and> (of_char c :: nat) \<le> 90) \<or>
         (192 \<le> (of_char c :: nat) \<and> (of_char c :: nat) \<le> 222 \<and> (of_char c :: nat) \<noteq> 215)
      then of_char c + 32 else of_char c)"
  by (auto simp add: toLowerCase_char_def Let_def of_char_of)

lemma toLowerCase_char_eq_iff:
  "toLowerCase_char c = d \<longleftrightarrow> (of_char (toLowerCase_char c) :: nat) = of_char d"
  by simp

lemmas lower_simps = toLowerCase_def toLowerCase_char_eq_iff of_char_toLowerCase_char

lemma startsWith_reply_subject: "startsWith (toLowerCase (reply_subject s)) ''re:''"
  by (simp add: reply_subject_def startsWith_def lower_simps)

lemma startsWith_forward_subject: "startsWith (toLowerCase (forward_subject s)) ''fwd:''"
  by (simp add: forward_subject_def startsWith_def lower_simps)

text \<open>
  The test on the lower-case subject looks at the first three characters only: it holds
  exactly for a subject that starts with \<open>r\<close> or \<open>R\<close>, then \<open>e\<close> or \<open>E\<close>, then a colon.
\<close>

lemma toLowerCase_char_ascii:
  "toLowerCase_char c = CHR ''r'' \<longleftrightarrow> c = CHR ''r'' \<or> c = CHR ''R''"
  "toLowerCase_char c = CHR ''e'' \<longleftrightarrow> c = CHR ''e'' \<or> c = CHR ''E''"
  "toLowerCase_char c = CHR '':'' \<longleftrightarrow> c = CHR '':''"
proof -
  have eq: "\<And>d. c = d \<longleftrightarrow> (of_char c :: nat) = of_char d"
    by simp
  show "toLowerCase_char c = CHR ''r'' \<longleftrightarrow> c = CHR ''r'' \<or> c = CHR ''R''"
    "toLowerCase_char c = CHR ''e'' \<longleftrightarrow> c = CHR ''e'' \<or> c = CHR ''E''"
    "toLowerCase_char c = CHR '':'' \<longleftrightarrow> c = CHR '':''"
    unfolding toLowerCase_char_eq_iff [of c] of_char_toLowerCase_char eq
    by (auto split: if_splits)
qed

lemma startsWith_re_iff:
  "startsWith (toLowerCase s) ''re:'' \<longleftrightarrow>
     (\<exists>a b rest. s = a # b # CHR '':'' # rest \<and> (a = CHR ''r'' \<or> a = CHR ''R'') \<and>
        (b = CHR ''e'' \<or> b = CHR ''E''))"
proof (cases s)
  case Nil
  then show ?thesis by (simp add: startsWith_def toLowerCase_def)
next
  case (Cons a s1)
  show ?thesis
  proof (cases s1)
    case Nil
    with Cons show ?thesis by (simp add: startsWith_def toLowerCase_def)
  next
    case (Cons b s2)
    note s1 = this
    show ?thesis
    proof (cases s2)
      case Nil
      with \<open>s = a # s1\<close> s1 show ?thesis by (simp add: startsWith_def toLowerCase_def)
    next
      case (Cons c rest)
      with \<open>s = a # s1\<close> s1 show ?thesis
        by (auto simp add: startsWith_def toLowerCase_def toLowerCase_char_ascii)
    qed
  qed
qed

text \<open>
  C5. The subject of a reply is the original subject when its lower-case form starts with
  \<open>re:\<close>, and the original subject behind \<open>Re: \<close> otherwise; the subject of a forward is
  the original subject when its lower-case form starts with \<open>fwd:\<close>, and the original
  subject behind \<open>Fwd: \<close> otherwise. A subject that already went through either function
  is left as it is: no prefix is doubled.
\<close>

theorem subject_prefix:
  "se_subject (replyEmail account original body replyAll isHtml) =
     (if startsWith (toLowerCase (o_subject original)) ''re:'' then o_subject original
      else ''Re: '' @ o_subject original)
   \<and> se_subject (forwardEmail original to comment attachments) =
     (if startsWith (toLowerCase (o_subject original)) ''fwd:'' then o_subject original
      else ''Fwd: '' @ o_subject original)
   \<and> reply_subject (reply_subject s) = reply_subject s
   \<and> forward_subject (forward_subject s) = forward_subject s"
proof -
  have "reply_subject (reply_subject s) = reply_subject s"
    using startsWith_reply_subject [of s] by (simp add: reply_subject_def [of "reply_subject s"])
  moreover have "forward_subject (forward_subject s) = forward_subject s"
    using startsWith_forward_subject [of s]
    by (simp add: forward_subject_def [of "forward_subject s"])
  ultimately show ?thesis
    by (simp add: replyEmail_def forwardEmail_def reply_subject_def forward_subject_def
          Let_def split_def)
qed

theorem subject_prefix_witness:
  "se_subject (replyEmail custom_resolved ann_message ''ok'' False False) = ''Re: Hello''
   \<and> se_subject (replyEmail custom_resolved own_message ''ok'' False False) = ''Re: Hello''
   \<and> se_subject (forwardEmail ann_message [''bob@example.com''] None None) = ''Fwd: Hello''"
  using subject_prefix [of custom_resolved ann_message "''ok''" False False "[''bob@example.com'']" None None]
        subject_prefix [of custom_resolved own_message "''ok''" False False]
  by (simp add: ann_message_def own_message_def startsWith_def lower_simps)

lemma reply_cc_loop_inv:
  "own \<notin> set cc \<Longrightarrow> set cc \<inter> set to = {} \<Longrightarrow>
   own \<notin> set (reply_cc_loop own to cc addrs) \<and> set (reply_cc_loop own to cc addrs) \<inter> set to = {}"
proof (induction addrs arbitrary: cc)
  case Nil
  then show ?case by simp
next
  case (Cons a addrs)
  let ?e = "extractEmailAddress a"
  show ?case
  proof (cases "?e \<noteq> [] \<and> ?e \<noteq> own \<and> ?e \<notin> set to")
    case True
    have "own \<notin> set (cc @ [?e])" "set (cc @ [?e]) \<inter> set to = {}"
      using True Cons.prems by auto
    from Cons.IH [OF this] show ?thesis
      using True by (simp add: Let_def)
  next
    case False
    from Cons.IH [OF Cons.prems] show ?thesis
      using False by (auto simp add: Let_def)
  qed
qed

text \<open>
  C2, as amended. A reply to all goes to the address taken from the original \<open>From\<close>, and
  to nobody else in \<open>to\<close>. Its \<open>cc\<close> list never holds the address of the acting account and
  never holds that primary recipient (both compared as strings). The primary recipient
  itself is not filtered: it is the acting account's own address when the account replies
  to a message it sent.
\<close>

theorem replyAll_recipients:
  "se_to (replyEmail account original body True isHtml) = [extractEmailAddress (o_from original)]
   \<and> (\<forall>cc. se_cc (replyEmail account original body True isHtml) = Some cc \<longrightarrow>
         r_email account \<notin> set cc \<and> extractEmailAddress (o_from original) \<notin> set cc)"
proof -
  let ?to = "[extractEmailAddress (o_from original)]"
  let ?cc = "snd (reply_recipients account original True)"
  have "r_email account \<notin> set ?cc \<and> set ?cc \<inter> set ?to = {}"
    using reply_cc_loop_inv [of "r_email account" "[]" ?to]
    by (simp add: reply_recipients_def Let_def)
  moreover have "fst (reply_recipients account original True) = ?to"
    by (simp add: reply_recipients_def Let_def)
  ultimately show ?thesis
    by (auto simp add: replyEmail_def Let_def split_def split: if_splits)
qed

lemma ann_reply:
  "se_to (replyEmail custom_resolved ann_message ''ok'' True False) = [''ann@example.com'']
   \<and> se_cc (replyEmail custom_resolved ann_message ''ok'' True False)
       = Some [''bob@example.com'', ''carol@example.com'']"
  by code_simp

theorem replyAll_recipients_witness:
  "se_cc (replyEmail custom_resolved ann_message ''ok'' True False)
     = Some [''bob@example.com'', ''carol@example.com'']
   \<and> r_email custom_resolved \<notin> set [''bob@example.com'', ''carol@example.com'']
   \<and> extractEmailAddress (o_from ann_message) \<notin> set [''bob@example.com'', ''carol@example.com'']"
  using replyAll_recipients [of custom_resolved ann_message "''ok''" False] ann_reply
  by simp

text \<open>
  The claim C2 as first stated fails on a reply to a message of one's own: the recipients
  then hold the acting account's address.
\<close>

theorem replyAll_own_address_counterexample:
  "r_email custom_resolved \<in> set (recipients (replyEmail custom_resolved own_message ''ok'' True False))"
  by code_simp

section \<open>Properties of the search query\<close>

lemma keyword_query_eq:
  "keyword_query c = \<lparr>
     q_subject = (if truthy (c_query c) \<and> c_searchIn c = Some In_subject then c_query c else None),
     q_from = (if truthy (c_query c) \<and> c_searchIn c = Some In_from then c_query c else None),
     q_to = (if truthy (c_query c) \<and> c_searchIn c = Some In_to then c_query c else None),
     q_body = (if truthy (c_query c) \<and> c_searchIn c = Some In_body then c_query c else None),
     q_or = (if truthy (c_query c) \<and> (c_searchIn c = Some In_all \<or> c_searchIn c = None)
             then Some [Or_subject (the (c_query c)), Or_from (the (c_query c)),
                        Or_to (the (c_query c)), Or_body (the (c_query c))]
             else None),
     q_since = None, q_before = None, q_unseen = None, q_flagged = None, q_all = None \<rparr>"
  by (cases "c_query c"; cases "c_searchIn c"; cases "nullish_or (c_searchIn c) In_all")
     (simp_all add: keyword_query_def empty_query_def truthy_def nullish_or_def Let_def)

lemma buildSearchQuery_keyword:
  "buildSearchQuery c =
     (let query = keyword_query c;
          query = (if truthy (c_dateFrom c)
                   then query \<lparr> q_since := Some (Date (the (c_dateFrom c))) \<rparr>
                   else query);
          query = (if truthy (c_dateTo c)
                   then query \<lparr> q_before := Some (Date (the (c_dateTo c))) \<rparr>
                   else query);
          query = (if c_unreadOnly c = Some True
                   then query \<lparr> q_unseen := Some True \<rparr> else query);
          query = (if c_flaggedOnly c = Some True
                   then query \<lparr> q_flagged := Some True \<rparr> else query);
          query = (if keys_length query = 0 then query \<lparr> q_all := Some True \<rparr> else query)
      in query)"
  unfolding buildSearchQuery_def keyword_query_def Let_def
  by (simp split: searchIn.splits)

lemma keys_length_keyword: "keys_length (keyword_query c) = (if truthy (c_query c) then 1 else 0)"
  by (cases "c_query c"; cases "c_searchIn c"; cases "nullish_or (c_searchIn c) In_all")
     (simp_all add: keyword_query_def empty_query_def truthy_def nullish_or_def Let_def
        keys_length_def)

lemma keys_length_since [simp]: "keys_length (q \<lparr> q_since := Some d \<rparr>) \<noteq> 0"
  and keys_length_before [simp]: "keys_length (q \<lparr> q_before := Some d \<rparr>) \<noteq> 0"
  and keys_length_unseen [simp]: "keys_length (q \<lparr> q_unseen := Some b \<rparr>) \<noteq> 0"
  and keys_length_flagged [simp]: "keys_length (q \<lparr> q_flagged := Some b \<rparr>) \<noteq> 0"
  by (simp_all add: keys_length_def)

lemma buildSearchQuery_closed:
  "buildSearchQuery c = \<lparr>
     q_subject = (if truthy (c_query c) \<and> c_searchIn c = Some In_subject then c_query c else None),
     q_from = (if truthy (c_query c) \<and> c_searchIn c = Some In_from then c_query c else None),
     q_to = (if truthy (c_query c) \<and> c_searchIn c = Some In_to then c_query c else None),
     q_body = (if truthy (c_query c) \<and> c_searchIn c = Some In_body then c_query c else None),
     q_or = (if truthy (c_query c) \<and> (c_searchIn c = Some In_all \<or> c_searchIn c = None)
             then Some [Or_subject (the (c_query c)), Or_from (the (c_query c)),
                        Or_to (the (c_query c)), Or_body (the (c_query c))]
             else None),
     q_since = (if truthy (c_dateFrom c) then Some (Date (the (c_dateFrom c))) else None),
     q_before = (if truthy (c_dateTo c) then Some (Date (the (c_dateTo c))) else None),
     q_unseen = (if c_unreadOnly c = Some True then Some True else None),
     q_flagged = (if c_flaggedOnly c = Some True then Some True else None),
     q_all = (if supplied c then None else Some True) \<rparr>"
proof -
  let ?k = "keyword_query c"
  have k: "q_since ?k = None" "q_before ?k = None" "q_unseen ?k = None" "q_flagged ?k = None"
    "q_all ?k = None"
    by (simp_all add: keyword_query_eq)
  have "buildSearchQuery c = ?k \<lparr>
     q_since := (if truthy (c_dateFrom c) then Some (Date (the (c_dateFrom c))) else None),
     q_before := (if truthy (c_dateTo c) then Some (Date (the (c_dateTo c))) else None),
     q_unseen := (if c_unreadOnly c = Some True then Some True else None),
     q_flagged := (if c_flaggedOnly c = Some True then Some True else None),
     q_all := (if supplied c then None else Some True) \<rparr>"
    by (cases "truthy (c_dateFrom c)"; cases "truthy (c_dateTo c)";
        cases "c_unreadOnly c = Some True"; cases "c_flaggedOnly c = Some True";
        intro SearchObject.equality)
       (simp_all add: buildSearchQuery_keyword Let_def keys_length_keyword supplied_def k)
  then show ?thesis
    by (simp add: keyword_query_eq)
qed

lemma satisfies_buildSearchQuery:
  "satisfies msg (buildSearchQuery c) \<longleftrightarrow>
      (truthy (c_query c) \<longrightarrow>
         (case nullish_or (c_searchIn c) In_all of
            In_subject \<Rightarrow> msg (Subject (the (c_query c)))
          | In_from \<Rightarrow> msg (From (the (c_query c)))
          | In_to \<Rightarrow> msg (To (the (c_query c)))
          | In_body \<Rightarrow> msg (Body (the (c_query c)))
          | In_all \<Rightarrow> msg (Subject (the (c_query c))) \<or> msg (From (the (c_query c))) \<or>
                      msg (To (the (c_query c))) \<or> msg (Body (the (c_query c)))))
      \<and> (truthy (c_dateFrom c) \<longrightarrow> msg (Since (Date (the (c_dateFrom c)))))
      \<and> (truthy (c_dateTo c) \<longrightarrow> msg (Before (Date (the (c_dateTo c)))))
      \<and> (c_unreadOnly c = Some True \<longrightarrow> msg Unseen)
      \<and> (c_flaggedOnly c = Some True \<longrightarrow> msg Flagged)"
  by (cases "c_query c"; cases "c_searchIn c"; cases "nullish_or (c_searchIn c) In_all")
     (simp_all add: buildSearchQuery_closed satisfies_def or_key_def truthy_def nullish_or_def)

text \<open>
  C4. The search object built from the criteria, key by key: a non-empty keyword with the
  scope \<open>subject\<close>, \<open>from\<close>, \<open>to\<close> or \<open>body\<close> sets that one key and no other keyword key; with
  the scope \<open>all\<close> or no scope it sets the key \<open>or\<close> to the four one-key objects of the same
  keyword; a non-empty \<open>dateFrom\<close> sets \<open>since\<close>, a non-empty \<open>dateTo\<close> sets \<open>before\<close>;
  \<open>unreadOnly\<close> sets \<open>unseen\<close> and \<open>flaggedOnly\<close> sets \<open>flagged\<close>; the key \<open>all\<close> is set exactly
  when no criterion is given. A message therefore matches the object exactly when it meets
  every criterion given, the keyword of scope \<open>all\<close> being met through any one of the four
  fields.
\<close>

theorem buildSearchQuery_maps:
  "buildSearchQuery c = \<lparr>
     q_subject = (if truthy (c_query c) \<and> c_searchIn c = Some In_subject then c_query c else None),
     q_from = (if truthy (c_query c) \<and> c_searchIn c = Some In_from then c_query c else None),
     q_to = (if truthy (c_query c) \<and> c_searchIn c = Some In_to then c_query c else None),
     q_body = (if truthy (c_query c) \<and> c_searchIn c = Some In_body then c_query c else None),
     q_or = (if truthy (c_query c) \<and> (c_searchIn c = Some In_all \<or> c_searchIn c = None)
             then Some [Or_subject (the (c_query c)), Or_from (the (c_query c)),
                        Or_to (the (c_query c)), Or_body (the (c_query c))]
             else None),
     q_since = (if truthy (c_dateFrom c) then Some (Date (the (c_dateFrom c))) else None),
     q_before = (if truthy (c_dateTo c) then Some (Date (the (c_dateTo c))) else None),
     q_unseen = (if c_unreadOnly c = Some True then Some True else None),
     q_flagged = (if c_flaggedOnly c = Some True then Some True else None),
     q_all = (if supplied c then None else Some True) \<rparr>
   \<and> (satisfies msg (buildSearchQuery c) \<longleftrightarrow>
      (truthy (c_query c) \<longrightarrow>
         (case nullish_or (c_searchIn c) In_all of
            In_subject \<Rightarrow> msg (Subject (the (c_query c)))
          | In_from \<Rightarrow> msg (From (the (c_query c)))
          | In_to \<Rightarrow> msg (To (the (c_query c)))
          | In_body \<Rightarrow> msg (Body (the (c_query c)))
          | In_all \<Rightarrow> msg (Subject (the (c_query c))) \<or> msg (From (the (c_query c))) \<or>
                      msg (To (the (c_query c))) \<or> msg (Body (the (c_query c)))))
      \<and> (truthy (c_dateFrom c) \<longrightarrow> msg (Since (Date (the (c_dateFrom c)))))
      \<and> (truthy (c_dateTo c) \<longrightarrow> msg (Before (Date (the (c_dateTo c)))))
      \<and> (c_unreadOnly c = Some True \<longrightarrow> msg Unseen)
      \<and> (c_flaggedOnly c = Some True \<longrightarrow> msg Flagged))"
  using buildSearchQuery_closed [of c] satisfies_buildSearchQuery [of msg c] by blast

theorem buildSearchQuery_maps_witness:
  "truthy (c_query invoice_criteria) \<and> truthy (c_dateFrom invoice_criteria)
   \<and> c_unreadOnly invoice_criteria = Some True
   \<and> buildSearchQuery invoice_criteria =
     empty_query \<lparr> q_subject := Some ''invoice'', q_since := Some (Date ''2024-01-01''),
                   q_unseen := Some True \<rparr>
   \<and> (satisfies (\<lambda>k. k \<in> {Subject ''invoice'', Since (Date ''2024-01-01''), Unseen})
         (buildSearchQuery invoice_criteria))
   \<and> \<not> satisfies (\<lambda>k. k \<in> {From ''invoice'', Since (Date ''2024-01-01''), Unseen})
         (buildSearchQuery invoice_criteria)
   \<and> buildSearchQuery no_criteria = empty_query \<lparr> q_all := Some True \<rparr>
   \<and> satisfies (\<lambda>k. False) (buildSearchQuery no_criteria)"
  using buildSearchQuery_maps [of invoice_criteria "\<lambda>k. k \<in> {Subject ''invoice'', Since (Date ''2024-01-01''), Unseen}"]
        buildSearchQuery_maps [of invoice_criteria "\<lambda>k. k \<in> {From ''invoice'', Since (Date ''2024-01-01''), Unseen}"]
        buildSearchQuery_maps [of no_criteria "\<lambda>k. False"]
  by (auto simp add: invoice_criteria_def no_criteria_def truthy_def nullish_or_def
        supplied_def empty_query_def)

section \<open>Properties of the IMAP session\<close>

lemma scoped_fresh:
  "snd (withConnection env (imap_bind (getMailboxLock env f) (\<lambda>_. try_finally body release)) fresh)
   = fresh"
  by (simp add: withConnection_def imap_bind_def try_finally_def catch_ignore_def connect_def
        logout_def getMailboxLock_def release_def fresh_def
        split: option.splits prod.splits sum.splits)

lemma scoped_result:
  "fst (withConnection env (imap_bind (getMailboxLock env f) (\<lambda>_. try_finally body release)) fresh)
   = (case connect_r env of
        Some e \<Rightarrow> Inl e
      | None \<Rightarrow> (case getMailboxLock_r env f of
                   Some e \<Rightarrow> Inl e
                 | None \<Rightarrow> fst (body \<lparr> connected = True, lock = Some f \<rparr>)))"
  by (simp add: withConnection_def imap_bind_def try_finally_def catch_ignore_def connect_def
        logout_def getMailboxLock_def release_def fresh_def
        split: option.splits prod.splits sum.splits)


lemma run_call [simp]:
  "call r s = (r, s)"
  "call_unit u s = (case u of Some e \<Rightarrow> Inl e | None \<Rightarrow> Inr (), s)"
  "imap_return x s = (Inr x, s)"
  by (simp_all add: call_def call_unit_def imap_return_def)

lemma run_bind:
  "imap_bind m f s = (case m s of (Inl e, s') \<Rightarrow> (Inl e, s') | (Inr x, s') \<Rightarrow> f x s')"
  by (simp add: imap_bind_def)

text \<open>
  C8. Each of the eight operations on a mailbox starts from a fresh session and, whatever
  the server answers to each call, ends in a session whose connection is closed and that
  holds no mailbox lock: this is so when the operation returns and when one of its calls
  fails, since the lock is released in a \<open>finally\<close> block inside the \<open>finally\<close> block that
  logs out.
\<close>

theorem sessions_closed:
  "snd (listEmails env folder limit unreadOnly fresh) = fresh
   \<and> snd (searchEmails env criteria folder limit fresh) = fresh
   \<and> snd (getEmailDetail env uid folder includeAttachmentContent fresh) = fresh
   \<and> snd (markEmails env uids folder markAs fresh) = fresh
   \<and> snd (flagEmail env uid folder setFlag fresh) = fresh
   \<and> snd (deleteEmails env account uids folder permanent fresh) = fresh
   \<and> snd (moveEmails env uids folder targetFolder fresh) = fresh
   \<and> snd (getAttachments env uid folder fresh) = fresh"
  by (simp add: listEmails_def searchEmails_def getEmailDetail_def markEmails_def
        flagEmail_def deleteEmails_def moveEmails_def getAttachments_def Let_def scoped_fresh)

theorem sessions_closed_witness:
  "fst (markEmails failing_env [1, 2] None Mark_read fresh) = Inl (Error ''NO'')
   \<and> snd (markEmails failing_env [1, 2] None Mark_read fresh) = fresh"
  using sessions_closed [where env = failing_env and folder = None and limit = None
          and unreadOnly = None and criteria = no_criteria and uid = 1
          and includeAttachmentContent = None and uids = "[1, 2]" and markAs = Mark_read
          and setFlag = True and account = custom_resolved and permanent = None
          and targetFolder = "''Archive''"]
  by (simp add: markEmails_def Let_def scoped_result failing_env_def inbox_env_def run_bind
        nullish_or_def)

text \<open>
  C9. When \<open>markEmails\<close>, \<open>deleteEmails\<close> or \<open>moveEmails\<close> succeeds, the count it returns is
  the length of the list of UIDs it was given, whatever the server did with them.
\<close>

theorem count_is_length:
  "(fst (markEmails env uids folder markAs fresh) = Inr r \<longrightarrow>
      success r \<and> count r = length uids)
   \<and> (fst (deleteEmails env account uids folder permanent fresh) = Inr r \<longrightarrow>
      success r \<and> count r = length uids)
   \<and> (fst (moveEmails env uids folder targetFolder fresh) = Inr r \<longrightarrow>
      success r \<and> count r = length uids)"
  by (auto simp add: markEmails_def deleteEmails_def moveEmails_def Let_def scoped_result
        run_bind split: option.splits if_splits)

theorem count_is_length_witness:
  "fst (markEmails (inbox_env [1, 2, 3]) [7, 8] None Mark_read fresh)
     = Inr \<lparr> success = True, count = 2 \<rparr>"
  using count_is_length [where env = "inbox_env [1, 2, 3]" and uids = "[7, 8]"
          and folder = None and markAs = Mark_read and r = "\<lparr> success = True, count = 2 \<rparr>"
          and account = custom_resolved and permanent = None and targetFolder = "''Archive''"]
  by (simp add: markEmails_def Let_def scoped_result inbox_env_def run_bind nullish_or_def)



















end
